theory Spec2Isabelle
  imports Main
begin

section \<open>The request snapshot and panic interception of http.go\<close>

subsection \<open>Standard-library functions the file calls\<close>

text \<open>
  http.go calls a handful of functions of the Go standard library. Those whose result
  depends on Unicode tables, on URL escaping or on address syntax are taken as
  parameters, collected in one record, so that every theorem below holds for whatever
  these functions compute:
  \<^item> \<open>ToLower\<close> is \<^verbatim>\<open>strings.ToLower\<close>;
  \<^item> \<open>SplitHostPort\<close> is \<^verbatim>\<open>net.SplitHostPort\<close>, with \<open>None\<close> for \<^verbatim>\<open>err != nil\<close>;
  \<^item> \<open>ParseQuery\<close> is \<^verbatim>\<open>(*url.URL).Query\<close> applied to the raw query string: it builds
    a new map at every call;
  \<^item> \<open>Encode\<close> is \<^verbatim>\<open>url.Values.Encode\<close>;
  \<^item> \<open>Sprint\<close> is \<^verbatim>\<open>fmt.Sprint\<close> on one value; \<open>'v\<close> is the type of the non-nil values
    a handler can panic with.
\<close>

type_synonym Values = "string \<rightharpoonup> string list"

record 'v stdlib =
  ToLower :: "string \<Rightarrow> string"
  SplitHostPort :: "string \<Rightarrow> (string \<times> string) option"
  ParseQuery :: "string \<Rightarrow> Values"
  Encode :: "Values \<Rightarrow> string"
  Sprint :: "'v \<Rightarrow> string"

text \<open>
  \<^verbatim>\<open>strings.Contains(s, substr)\<close>: \<open>substr\<close> occurs in \<open>s\<close> at some byte offset.
\<close>

fun Contains :: "string \<Rightarrow> string \<Rightarrow> bool" where
  "Contains [] substr = (substr = [])"
| "Contains (c # s) substr = (take (length substr) (c # s) = substr \<or> Contains s substr)"

text \<open>\<^verbatim>\<open>strings.Join(elems, sep)\<close>.\<close>

fun Join :: "string list \<Rightarrow> string \<Rightarrow> string" where
  "Join [] sep = []"
| "Join [e] sep = e"
| "Join (e # es) sep = e @ sep @ Join es sep"

text \<open>
  \<^verbatim>\<open>http.Header.Get(key)\<close> for a key that is already in canonical form, as both keys
  http.go asks for are (\<^verbatim>\<open>X-Forwarded-Proto\<close>, \<^verbatim>\<open>Cookie\<close>): the first value stored under
  the key, the empty string when there is none.
\<close>

definition Header_Get :: "Values \<Rightarrow> string \<Rightarrow> string" where
  "Header_Get h key = (case h key of None \<Rightarrow> [] | Some [] \<Rightarrow> [] | Some (v # _) \<Rightarrow> v)"

subsection \<open>Redaction\<close>

text \<open>
  \<^verbatim>\<open>var querySecretFields = []string{"password", "passphrase", "passwd", "secret"}\<close>:
  the value of the package variable when the process starts.
\<close>

definition querySecretFields_init :: "string list" where
  "querySecretFields_init = [''password'', ''passphrase'', ''passwd'', ''secret'']"

text \<open>
  The inner loop of \<^verbatim>\<open>sanitizeValues\<close> for one keyword:
  \<^verbatim>\<open>for field := range query { if strings.Contains(strings.ToLower(field),
  strings.ToLower(keyword)) { query[field] = []string{"********"} } }\<close>.
  The loop visits every key of the map once, in an order Go leaves open, and only
  overwrites the entry of the key it visits, so its result is the map changed at each
  matching key.
\<close>

definition sanitizeKeyword :: "'v stdlib \<Rightarrow> string \<Rightarrow> Values \<Rightarrow> Values" where
  "sanitizeKeyword L keyword query =
     (\<lambda>field. case query field of
         None \<Rightarrow> None
       | Some vs \<Rightarrow>
           if Contains (ToLower L field) (ToLower L keyword) then Some [''********'']
           else Some vs)"

text \<open>
  \<^verbatim>\<open>sanitizeValues\<close>: the outer loop over \<^verbatim>\<open>querySecretFields\<close>, whose current value
  is the argument \<open>secretFields\<close>. The Go function writes into the map it is given and returns
  that same map; the value returned here is the content of that map afterwards.
\<close>

fun sanitizeValues :: "'v stdlib \<Rightarrow> string list \<Rightarrow> Values \<Rightarrow> Values" where
  "sanitizeValues L [] query = query"
| "sanitizeValues L (keyword # secretFields) query =
     sanitizeValues L secretFields (sanitizeKeyword L keyword query)"

text \<open>\<^verbatim>\<open>AddSanitizeField\<close>: appends to the package variable.\<close>

definition AddSanitizeField :: "string \<Rightarrow> string list \<Rightarrow> string list" where
  "AddSanitizeField field secretFields = secretFields @ [field]"

subsection \<open>The request and its snapshot\<close>

text \<open>
  The fields of \<^verbatim>\<open>*http.Request\<close> that \<^verbatim>\<open>NewHttp\<close> reads. \<open>Request_TLS\<close> is \<open>None\<close> for
  the nil pointer. \<open>Request_URL\<close> is the \<^verbatim>\<open>*url.URL\<close> of a request the server received,
  which is never nil. \<open>Request_Header\<close> is a Go map: the request holds a reference to
  it, so what a callee writes into the map is seen by every holder of the request.
\<close>

datatype ConnectionState = ConnectionState

record net_URL =
  URL_Path :: string
  URL_RawQuery :: string

record Request =
  Request_Method :: string
  Request_URL :: net_URL
  Request_Host :: string
  Request_Header :: Values
  Request_RemoteAddr :: string
  Request_TLS :: "ConnectionState option"

text \<open>
  \<^verbatim>\<open>type Http struct\<close>. \<open>Env\<close> is \<open>None\<close> for the nil map. \<open>Data\<close> is an
  \<^verbatim>\<open>interface{}\<close> that \<^verbatim>\<open>NewHttp\<close> never sets: \<open>None\<close> is its nil.
\<close>

record Http =
  URL :: string
  Method :: string
  Query :: string
  Cookies :: string
  Headers :: "string \<rightharpoonup> string"
  Env :: "(string \<rightharpoonup> string) option"
  Data :: "string option"

text \<open>
  \<^verbatim>\<open>NewHttp\<close>. The result is the snapshot together with the request as the caller sees
  it afterwards: \<^verbatim>\<open>sanitizeValues(req.Header)\<close> is given the request's own header map and
  writes into it, whereas \<^verbatim>\<open>req.URL.Query()\<close> builds a new map from the raw query, so
  that call of \<^verbatim>\<open>sanitizeValues\<close> leaves the request alone. The struct literal is
  evaluated before the header map is sanitized, so \<open>Cookies\<close> and the scheme read the
  header as it was on entry.
\<close>

definition NewHttp :: "'v stdlib \<Rightarrow> string list \<Rightarrow> Request \<Rightarrow> Http \<times> Request" where
  "NewHttp L secretFields req =
     (let proto =
            (if Request_TLS req \<noteq> None
                \<or> Header_Get (Request_Header req) ''X-Forwarded-Proto'' = ''https''
             then ''https'' else ''http'');
          h = \<lparr> URL = proto @ ''://'' @ Request_Host req @ URL_Path (Request_URL req),
                Method = Request_Method req,
                Query = Encode L (sanitizeValues L secretFields
                          (ParseQuery L (URL_RawQuery (Request_URL req)))),
                Cookies = Header_Get (Request_Header req) ''Cookie'',
                Headers = Map.empty,
                Env = None,
                Data = None \<rparr>;
          h = (case SplitHostPort L (Request_RemoteAddr req) of
                 Some (addr, port) \<Rightarrow>
                   h \<lparr> Env := Some [''REMOTE_ADDR'' \<mapsto> addr, ''REMOTE_PORT'' \<mapsto> port] \<rparr>
               | None \<Rightarrow> h);
          header = sanitizeValues L secretFields (Request_Header req);
          h = h \<lparr> Headers := (\<lambda>k. map_option (\<lambda>v. Join v '','') (header k)) \<rparr>
      in (h, req \<lparr> Request_Header := header \<rparr>))"

subsection \<open>Packets\<close>

text \<open>
  Modelled from the spec: \<^verbatim>\<open>NewStacktrace\<close>, \<^verbatim>\<open>NewException\<close>, \<^verbatim>\<open>NewPacket\<close> and
  \<^verbatim>\<open>Capture\<close> belong to this package but are defined in other files. The spec treats them
  as opaque functions that return without failing: packet assembly puts together the
  message, the exception record and the request context, and submission hands the
  packet to the reporting pipeline. Each constructor below stands for the result of the
  call of that name on those arguments (\<^verbatim>\<open>errors.New(s)\<close> is its message \<open>s\<close>, the nil
  slice of package prefixes is \<open>[]\<close>), and submission appends the packet to the list of
  submitted packets.
\<close>

datatype Stacktrace = NewStacktrace int int "string list"

datatype Interface = NewException string Stacktrace | HttpInterface Http

datatype Packet = NewPacket string "Interface list"

fun Packet_Message :: "Packet \<Rightarrow> string" where
  "Packet_Message (NewPacket message interfaces) = message"

subsection \<open>The two wrappers\<close>

text \<open>
  What a call of a wrapped handler can touch: the status codes written to the
  \<^verbatim>\<open>http.ResponseWriter\<close> with \<^verbatim>\<open>WriteHeader\<close>, in order; the packets submitted with
  \<^verbatim>\<open>Capture\<close>, in order; the number of stack traces printed by \<^verbatim>\<open>debug.PrintStack\<close>;
  the request behind the pointer \<^verbatim>\<open>r\<close>; the package variable \<^verbatim>\<open>querySecretFields\<close>.
\<close>

record World =
  statuses :: "nat list"
  captured :: "Packet list"
  stacksPrinted :: nat
  request :: Request
  querySecretFields :: "string list"

text \<open>
  A call either returns or panics. The value of a panic is an \<^verbatim>\<open>interface{}\<close>: \<open>None\<close> is
  the nil interface, \<open>Some v\<close> any other value.
\<close>

datatype 'v outcome = Returns | Panics "'v option"

type_synonym 'v handler = "World \<Rightarrow> 'v outcome \<times> World"

definition StatusInternalServerError :: nat where
  "StatusInternalServerError = 500"

text \<open>
  The body of the \<^verbatim>\<open>if rval := recover(); rval != nil\<close> branch up to and including
  \<^verbatim>\<open>w.WriteHeader\<close>, which is the same text in both wrappers.
\<close>

definition reportPanic :: "'v stdlib \<Rightarrow> 'v \<Rightarrow> World \<Rightarrow> World" where
  "reportPanic L rval s =
     (let s = s \<lparr> stacksPrinted := Suc (stacksPrinted s) \<rparr>;
          rvalStr = Sprint L rval;
          (h, req) = NewHttp L (querySecretFields s) (request s);
          packet = NewPacket rvalStr [NewException rvalStr (NewStacktrace 2 3 []), HttpInterface h];
          s = s \<lparr> request := req \<rparr>;
          s = s \<lparr> captured := captured s @ [packet] \<rparr>
      in s \<lparr> statuses := statuses s @ [StatusInternalServerError] \<rparr>)"

text \<open>
  \<^verbatim>\<open>RecoveryHandler\<close>. The deferred function runs when the handler has returned or
  panicked. \<^verbatim>\<open>recover()\<close> is nil when the handler returned, and also when it panicked
  with the nil interface (a Go runtime from 1.21 on turns \<^verbatim>\<open>panic(nil)\<close> into a panic with
  a non-nil runtime error, so that there \<open>Panics None\<close> does not occur); in both cases
  the branch is skipped, and a panic that \<^verbatim>\<open>recover\<close> has taken stops.
\<close>

definition RecoveryHandler :: "'v stdlib \<Rightarrow> 'v handler \<Rightarrow> 'v handler" where
  "RecoveryHandler L handler s =
     (case handler s of
        (Returns, s') \<Rightarrow> (Returns, s')
      | (Panics None, s') \<Rightarrow> (Returns, s')
      | (Panics (Some rval), s') \<Rightarrow> (Returns, reportPanic L rval s'))"

text \<open>\<^verbatim>\<open>ReportHandler\<close>: the same, with \<^verbatim>\<open>panic(rval)\<close> at the end of the branch.\<close>

definition ReportHandler :: "'v stdlib \<Rightarrow> 'v handler \<Rightarrow> 'v handler" where
  "ReportHandler L handler s =
     (case handler s of
        (Returns, s') \<Rightarrow> (Returns, s')
      | (Panics None, s') \<Rightarrow> (Returns, s')
      | (Panics (Some rval), s') \<Rightarrow> (Panics (Some rval), reportPanic L rval s'))"

subsection \<open>Sample inputs\<close>

text \<open>
  Concrete inputs on which the definitions are evaluated below. \<open>sampleLib\<close> gives the
  library functions on the inputs used here: \<^verbatim>\<open>strings.ToLower\<close> on ASCII strings,
  \<^verbatim>\<open>net.SplitHostPort\<close> on addresses without brackets (the part after the last colon is
  the port, and the rest, which must hold no colon, is the host), the query functions
  on the empty query, and \<^verbatim>\<open>fmt.Sprint\<close> on strings.
\<close>

definition asciiLower :: "char \<Rightarrow> char" where
  "asciiLower c =
     (case map_of (zip ''ABCDEFGHIJKLMNOPQRSTUVWXYZ'' ''abcdefghijklmnopqrstuvwxyz'') c of
        Some d \<Rightarrow> d
      | None \<Rightarrow> c)"

definition splitLastColon :: "string \<Rightarrow> (string \<times> string) option" where
  "splitLastColon hostport =
     (let port = rev (takeWhile (\<lambda>c. c \<noteq> CHR '':'') (rev hostport));
          rest = rev (dropWhile (\<lambda>c. c \<noteq> CHR '':'') (rev hostport))
      in if rest = [] \<or> CHR '':'' \<in> set (butlast rest)
            \<or> CHR ''['' \<in> set hostport \<or> CHR '']'' \<in> set hostport
         then None else Some (butlast rest, port))"

definition sampleLib :: "string stdlib" where
  "sampleLib = \<lparr> ToLower = map asciiLower, SplitHostPort = splitLastColon,
                 ParseQuery = (\<lambda>raw. Map.empty), Encode = (\<lambda>values. []),
                 Sprint = (\<lambda>v. v) \<rparr>"

definition sampleRequest :: Request where
  "sampleRequest =
     \<lparr> Request_Method = ''GET'',
       Request_URL = \<lparr> URL_Path = ''/login'', URL_RawQuery = [] \<rparr>,
       Request_Host = ''example.com'',
       Request_Header = [''X-Api-Secret'' \<mapsto> [''hunter2''], ''Accept'' \<mapsto> [''text/html'', ''text/plain''],
                         ''Cookie'' \<mapsto> [''password=abc'']],
       Request_RemoteAddr = ''203.0.113.5:54321'',
       Request_TLS = None \<rparr>"

definition sampleWorld :: World where
  "sampleWorld = \<lparr> statuses = [], captured = [], stacksPrinted = 0,
                   request = sampleRequest, querySecretFields = querySecretFields_init \<rparr>"

definition boomHandler :: "string handler" where
  "boomHandler s = (Panics (Some ''boom''), s)"

definition quietHandler :: "string handler" where
  "quietHandler s = (Returns, s)"

section \<open>Properties of the redaction\<close>

lemma Contains_iff: "Contains s substr \<longleftrightarrow> (\<exists>p q. s = p @ substr @ q)"
proof (induction s)
  case Nil
  then show ?case by auto
next
  case (Cons c s)
  have "take (length substr) (c # s) = substr \<longleftrightarrow> (\<exists>q. c # s = substr @ q)"
    by (metis append_eq_conv_conj append_take_drop_id)
  moreover have "(\<exists>p q. c # s = p @ substr @ q) \<longleftrightarrow>
      (\<exists>q. c # s = substr @ q) \<or> (\<exists>p q. s = p @ substr @ q)"
  proof
    assume "\<exists>p q. c # s = p @ substr @ q"
    then obtain p q where pq: "c # s = p @ substr @ q" by blast
    show "(\<exists>q. c # s = substr @ q) \<or> (\<exists>p q. s = p @ substr @ q)"
    proof (cases p)
      case Nil
      with pq show ?thesis by auto
    next
      case (Cons a p')
      with pq have "s = p' @ substr @ q" by simp
      then show ?thesis by blast
    qed
  next
    assume "(\<exists>q. c # s = substr @ q) \<or> (\<exists>p q. s = p @ substr @ q)"
    then show "\<exists>p q. c # s = p @ substr @ q"
    proof
      assume "\<exists>q. c # s = substr @ q"
      then show ?thesis by (metis append_Nil)
    next
      assume "\<exists>p q. s = p @ substr @ q"
      then obtain p q where "s = p @ substr @ q" by blast
      then have "c # s = (c # p) @ substr @ q" by simp
      then show ?thesis by blast
    qed
  qed
  ultimately show ?case using Cons.IH by simp
qed

lemma sanitizeKeyword_None: "query field = None \<Longrightarrow> sanitizeKeyword L keyword query field = None"
  by (simp add: sanitizeKeyword_def)

lemma sanitizeValues_None: "query field = None \<Longrightarrow> sanitizeValues L secretFields query field = None"
  by (induction secretFields arbitrary: query) (simp_all add: sanitizeKeyword_None)

lemma sanitizeValues_stars:
  "query field = Some [''********''] \<Longrightarrow> sanitizeValues L secretFields query field = Some [''********'']"
  by (induction secretFields arbitrary: query) (simp_all add: sanitizeKeyword_def)

lemma sanitizeValues_lookup:
  "sanitizeValues L secretFields query field =
     (case query field of
        None \<Rightarrow> None
      | Some vs \<Rightarrow>
          if \<exists>keyword \<in> set secretFields. Contains (ToLower L field) (ToLower L keyword)
          then Some [''********''] else Some vs)"
proof (induction secretFields arbitrary: query)
  case Nil
  then show ?case by (simp split: option.splits)
next
  case (Cons keyword secretFields)
  show ?case
  proof (cases "query field")
    case None
    then show ?thesis by (simp add: sanitizeValues_None sanitizeKeyword_None)
  next
    case (Some vs)
    show ?thesis
    proof (cases "Contains (ToLower L field) (ToLower L keyword)")
      case True
      with Some have "sanitizeKeyword L keyword query field = Some [''********'']"
        by (simp add: sanitizeKeyword_def)
      then show ?thesis using Some True by (simp add: sanitizeValues_stars)
    next
      case False
      with Some have "sanitizeKeyword L keyword query field = Some vs"
        by (simp add: sanitizeKeyword_def)
      then show ?thesis using Some False by (simp add: Cons.IH)
    qed
  qed
qed

section \<open>Properties of the snapshot and of the wrappers: auxiliary facts\<close>

lemma NewHttp_request:
  "snd (NewHttp L secretFields req) =
     req \<lparr> Request_Header := sanitizeValues L secretFields (Request_Header req) \<rparr>"
  by (simp add: NewHttp_def Let_def)

lemma NewHttp_Headers:
  "Headers (fst (NewHttp L secretFields req)) k =
     map_option (\<lambda>v. Join v '','') (sanitizeValues L secretFields (Request_Header req) k)"
  by (simp add: NewHttp_def Let_def)

lemma reportPanic_captured:
  "captured (reportPanic L rval s) =
     captured s @ [NewPacket (Sprint L rval)
       [NewException (Sprint L rval) (NewStacktrace 2 3 []),
        HttpInterface (fst (NewHttp L (querySecretFields s) (request s)))]]"
  by (simp add: reportPanic_def Let_def split: prod.splits)

lemma reportPanic_statuses:
  "statuses (reportPanic L rval s) = statuses s @ [500]"
  by (simp add: reportPanic_def Let_def StatusInternalServerError_def split: prod.splits)

lemmas sample_defs = sampleLib_def sampleRequest_def querySecretFields_init_def asciiLower_def

section \<open>The claims\<close>

text \<open>
  Claim C1. Whatever the map and the registered fragments are, \<^verbatim>\<open>sanitizeValues\<close> replaces
  the whole value list of every key of the map whose lowercased name contains the
  lowercased form of some registered fragment by the one-element list \<^verbatim>\<open>["********"]\<close>,
  leaves the value list of every other key as it was, and gives no entry to a key that
  had none. Key and fragment are both lowercased before they are compared.
\<close>

theorem sanitizeValues_redacts:
  "(query field \<noteq> None
      \<and> (\<exists>keyword \<in> set secretFields. Contains (ToLower L field) (ToLower L keyword))
      \<longrightarrow> sanitizeValues L secretFields query field = Some [''********''])
   \<and> (\<not> (\<exists>keyword \<in> set secretFields. Contains (ToLower L field) (ToLower L keyword))
      \<longrightarrow> sanitizeValues L secretFields query field = query field)
   \<and> (query field = None \<longrightarrow> sanitizeValues L secretFields query field = None)"
  by (auto simp: sanitizeValues_lookup split: option.splits)

text \<open>The same at the sample inputs.\<close>

theorem sanitizeValues_redacts_witness:
  "[''PASSWORD'' \<mapsto> [''a'', ''b''], ''UserPassphrase'' \<mapsto> [''c''], ''Page'' \<mapsto> [''2'']] ''PASSWORD'' \<noteq> None
   \<and> (\<exists>keyword \<in> set querySecretFields_init.
          Contains (ToLower sampleLib ''PASSWORD'') (ToLower sampleLib keyword))
   \<and> sanitizeValues sampleLib querySecretFields_init
        [''PASSWORD'' \<mapsto> [''a'', ''b''], ''UserPassphrase'' \<mapsto> [''c''], ''Page'' \<mapsto> [''2'']] ''PASSWORD''
       = Some [''********'']
   \<and> (\<exists>keyword \<in> set querySecretFields_init.
          Contains (ToLower sampleLib ''UserPassphrase'') (ToLower sampleLib keyword))
   \<and> sanitizeValues sampleLib querySecretFields_init
        [''PASSWORD'' \<mapsto> [''a'', ''b''], ''UserPassphrase'' \<mapsto> [''c''], ''Page'' \<mapsto> [''2'']] ''UserPassphrase''
       = Some [''********'']
   \<and> \<not> (\<exists>keyword \<in> set querySecretFields_init.
          Contains (ToLower sampleLib ''Page'') (ToLower sampleLib keyword))
   \<and> sanitizeValues sampleLib querySecretFields_init
        [''PASSWORD'' \<mapsto> [''a'', ''b''], ''UserPassphrase'' \<mapsto> [''c''], ''Page'' \<mapsto> [''2'']] ''Page''
       = Some [''2'']
   \<and> sanitizeValues sampleLib querySecretFields_init
        [''PASSWORD'' \<mapsto> [''a'', ''b''], ''UserPassphrase'' \<mapsto> [''c''], ''Page'' \<mapsto> [''2'']] ''Secret''
       = None"
proof -
  let ?q = "[''PASSWORD'' \<mapsto> [''a'', ''b''], ''UserPassphrase'' \<mapsto> [''c''], ''Page'' \<mapsto> [''2'']] :: Values"
  have m1: "\<exists>keyword \<in> set querySecretFields_init.
          Contains (ToLower sampleLib ''PASSWORD'') (ToLower sampleLib keyword)"
    by code_simp
  have m2: "\<exists>keyword \<in> set querySecretFields_init.
          Contains (ToLower sampleLib ''UserPassphrase'') (ToLower sampleLib keyword)"
    by code_simp
  have m3: "\<not> (\<exists>keyword \<in> set querySecretFields_init.
          Contains (ToLower sampleLib ''Page'') (ToLower sampleLib keyword))"
    by code_simp
  have d1: "?q ''PASSWORD'' \<noteq> None" and d2: "?q ''UserPassphrase'' \<noteq> None"
    and d3: "?q ''Page'' = Some [''2'']" and d4: "?q ''Secret'' = None"
    by simp_all
  show ?thesis
    using sanitizeValues_redacts [of ?q "''PASSWORD''" querySecretFields_init sampleLib]
      sanitizeValues_redacts [of ?q "''UserPassphrase''" querySecretFields_init sampleLib]
      sanitizeValues_redacts [of ?q "''Page''" querySecretFields_init sampleLib]
      sanitizeValues_redacts [of ?q "''Secret''" querySecretFields_init sampleLib]
      m1 m2 m3 d1 d2 d3 d4
    by presburger
qed

text \<open>
  Claim C2. When the handler panics with a value \<open>v\<close>, the handler wrapped by
  \<^verbatim>\<open>RecoveryHandler\<close> returns; exactly one packet has been submitted on top of those the
  handler submitted itself, with the stringified \<open>v\<close> as its message; and exactly one
  status, 500, has been written after those the handler wrote itself. When the handler
  returns, the wrapper returns with the world as the handler left it: no packet and no
  status of its own.
\<close>

theorem RecoveryHandler_suppresses:
  "(handler s = (Panics (Some v), s') \<longrightarrow>
      (\<exists>t p. RecoveryHandler L handler s = (Returns, t)
         \<and> captured t = captured s' @ [p] \<and> Packet_Message p = Sprint L v
         \<and> statuses t = statuses s' @ [500]))
   \<and> (handler s = (Returns, s') \<longrightarrow> RecoveryHandler L handler s = (Returns, s'))"
proof (intro conjI impI)
  assume h: "handler s = (Panics (Some v), s')"
  define p where "p = NewPacket (Sprint L v)
       [NewException (Sprint L v) (NewStacktrace 2 3 []),
        HttpInterface (fst (NewHttp L (querySecretFields s') (request s')))]"
  have c: "captured (reportPanic L v s') = captured s' @ [p]"
    by (simp add: p_def reportPanic_captured)
  have "RecoveryHandler L handler s = (Returns, reportPanic L v s')"
    using h by (simp add: RecoveryHandler_def)
  moreover have "Packet_Message p = Sprint L v" by (simp add: p_def)
  ultimately show "\<exists>t p. RecoveryHandler L handler s = (Returns, t)
         \<and> captured t = captured s' @ [p] \<and> Packet_Message p = Sprint L v
         \<and> statuses t = statuses s' @ [500]"
    using c reportPanic_statuses [of L v s'] by blast
next
  assume "handler s = (Returns, s')"
  then show "RecoveryHandler L handler s = (Returns, s')"
    by (simp add: RecoveryHandler_def)
qed

text \<open>The same at the sample inputs.\<close>

theorem RecoveryHandler_suppresses_witness:
  "boomHandler sampleWorld = (Panics (Some ''boom''), sampleWorld)
   \<and> fst (RecoveryHandler sampleLib boomHandler sampleWorld) = Returns
   \<and> map Packet_Message (captured (snd (RecoveryHandler sampleLib boomHandler sampleWorld))) = [''boom'']
   \<and> statuses (snd (RecoveryHandler sampleLib boomHandler sampleWorld)) = [500]
   \<and> quietHandler sampleWorld = (Returns, sampleWorld)
   \<and> RecoveryHandler sampleLib quietHandler sampleWorld = (Returns, sampleWorld)"
proof -
  have h1: "boomHandler sampleWorld = (Panics (Some ''boom''), sampleWorld)"
    by (simp add: boomHandler_def)
  have h2: "quietHandler sampleWorld = (Returns, sampleWorld)"
    by (simp add: quietHandler_def)
  from RecoveryHandler_suppresses [of boomHandler sampleWorld "''boom''" sampleWorld sampleLib] h1
  obtain t p where "RecoveryHandler sampleLib boomHandler sampleWorld = (Returns, t)"
    and "captured t = captured sampleWorld @ [p]" and "Packet_Message p = Sprint sampleLib ''boom''"
    and "statuses t = statuses sampleWorld @ [500]"
    by blast
  then have "fst (RecoveryHandler sampleLib boomHandler sampleWorld) = Returns
   \<and> map Packet_Message (captured (snd (RecoveryHandler sampleLib boomHandler sampleWorld))) = [''boom'']
   \<and> statuses (snd (RecoveryHandler sampleLib boomHandler sampleWorld)) = [500]"
    by (simp add: sampleWorld_def sampleLib_def)
  moreover have "RecoveryHandler sampleLib quietHandler sampleWorld = (Returns, sampleWorld)"
    using RecoveryHandler_suppresses [of quietHandler sampleWorld undefined sampleWorld sampleLib] h2
    by blast
  ultimately show ?thesis using h1 h2 by blast
qed

text \<open>
  Claim C3. When the handler panics with a value \<open>v\<close>, the handler wrapped by
  \<^verbatim>\<open>ReportHandler\<close> submits exactly one packet, with the stringified \<open>v\<close> as its message,
  writes the status 500 once, and then panics with the same value \<open>v\<close>.
\<close>

theorem ReportHandler_repropagates:
  "handler s = (Panics (Some v), s') \<Longrightarrow>
      \<exists>t p. ReportHandler L handler s = (Panics (Some v), t)
         \<and> captured t = captured s' @ [p] \<and> Packet_Message p = Sprint L v
         \<and> statuses t = statuses s' @ [500]"
proof -
  assume h: "handler s = (Panics (Some v), s')"
  define p where "p = NewPacket (Sprint L v)
       [NewException (Sprint L v) (NewStacktrace 2 3 []),
        HttpInterface (fst (NewHttp L (querySecretFields s') (request s')))]"
  have c: "captured (reportPanic L v s') = captured s' @ [p]"
    by (simp add: p_def reportPanic_captured)
  have "ReportHandler L handler s = (Panics (Some v), reportPanic L v s')"
    using h by (simp add: ReportHandler_def)
  moreover have "Packet_Message p = Sprint L v" by (simp add: p_def)
  ultimately show ?thesis
    using c reportPanic_statuses [of L v s'] by blast
qed

text \<open>The same at the sample inputs.\<close>

theorem ReportHandler_repropagates_witness:
  "boomHandler sampleWorld = (Panics (Some ''boom''), sampleWorld)
   \<and> fst (ReportHandler sampleLib boomHandler sampleWorld) = Panics (Some ''boom'')
   \<and> map Packet_Message (captured (snd (ReportHandler sampleLib boomHandler sampleWorld))) = [''boom'']
   \<and> statuses (snd (ReportHandler sampleLib boomHandler sampleWorld)) = [500]"
proof -
  have h1: "boomHandler sampleWorld = (Panics (Some ''boom''), sampleWorld)"
    by (simp add: boomHandler_def)
  from ReportHandler_repropagates [of boomHandler sampleWorld "''boom''" sampleWorld sampleLib, OF h1]
  obtain t p where "ReportHandler sampleLib boomHandler sampleWorld = (Panics (Some ''boom''), t)"
    and "captured t = captured sampleWorld @ [p]" and "Packet_Message p = Sprint sampleLib ''boom''"
    and "statuses t = statuses sampleWorld @ [500]"
    by blast
  then have "fst (ReportHandler sampleLib boomHandler sampleWorld) = Panics (Some ''boom'')
   \<and> map Packet_Message (captured (snd (ReportHandler sampleLib boomHandler sampleWorld))) = [''boom'']
   \<and> statuses (snd (ReportHandler sampleLib boomHandler sampleWorld)) = [500]"
    by (simp add: sampleWorld_def sampleLib_def)
  then show ?thesis using h1 by blast
qed

text \<open>
  Claim C4 holds of the query parameters and fails of the headers. \<^verbatim>\<open>NewHttp\<close> hands the
  request's own header map to \<^verbatim>\<open>sanitizeValues\<close>, which writes into it: after the call the
  request's header map is the sanitized one. Nothing else of the request is touched; in
  particular its raw query, from which \<^verbatim>\<open>req.URL.Query()\<close> builds the map that is
  sanitized for \<open>Query\<close>, is as it was.
\<close>

theorem NewHttp_sanitizes_request_header:
  "Request_Header (snd (NewHttp L secretFields req))
     = sanitizeValues L secretFields (Request_Header req)
   \<and> (snd (NewHttp L secretFields req)) \<lparr> Request_Header := Request_Header req \<rparr> = req"
  by (simp add: NewHttp_request)

text \<open>
  At the sample request, which comes in with the header \<^verbatim>\<open>X-Api-Secret: hunter2\<close>: once
  the snapshot is built, the request itself holds \<^verbatim>\<open>X-Api-Secret: ********\<close>.
\<close>

theorem NewHttp_overwrites_request_header:
  "Request_Header sampleRequest ''X-Api-Secret'' = Some [''hunter2'']
   \<and> Request_Header (snd (NewHttp sampleLib querySecretFields_init sampleRequest)) ''X-Api-Secret''
       = Some [''********'']"
  using NewHttp_sanitizes_request_header [of sampleLib querySecretFields_init sampleRequest]
  by (simp add: sampleRequest_def sampleLib_def querySecretFields_init_def
      sanitizeKeyword_def asciiLower_def)

text \<open>
  Claim C5. The snapshot's \<open>URL\<close> is the scheme, \<^verbatim>\<open>://\<close>, the host and the path, where
  the scheme is \<^verbatim>\<open>https\<close> exactly when the request has a TLS connection state or its
  \<^verbatim>\<open>X-Forwarded-Proto\<close> header is \<^verbatim>\<open>https\<close>, and \<^verbatim>\<open>http\<close> otherwise. The raw query of the
  request has no influence on it.
\<close>

theorem NewHttp_URL_scheme:
  "URL (fst (NewHttp L secretFields req)) =
     (if Request_TLS req \<noteq> None
         \<or> Header_Get (Request_Header req) ''X-Forwarded-Proto'' = ''https''
      then ''https'' else ''http'')
     @ ''://'' @ Request_Host req @ URL_Path (Request_URL req)
   \<and> URL (fst (NewHttp L secretFields
        (req \<lparr> Request_URL := (Request_URL req) \<lparr> URL_RawQuery := rawQuery \<rparr> \<rparr>)))
     = URL (fst (NewHttp L secretFields req))"
  by (simp add: NewHttp_def Let_def split: option.splits prod.splits)

text \<open>The same at the sample inputs.\<close>

theorem NewHttp_URL_scheme_witness:
  "URL (fst (NewHttp sampleLib querySecretFields_init sampleRequest)) = ''http://example.com/login''
   \<and> URL (fst (NewHttp sampleLib querySecretFields_init
         (sampleRequest \<lparr> Request_TLS := Some ConnectionState \<rparr>))) = ''https://example.com/login''
   \<and> URL (fst (NewHttp sampleLib querySecretFields_init
         (sampleRequest \<lparr> Request_Header := [''X-Forwarded-Proto'' \<mapsto> [''https'']] \<rparr>)))
       = ''https://example.com/login''
   \<and> URL (fst (NewHttp sampleLib querySecretFields_init
         (sampleRequest \<lparr> Request_URL := (Request_URL sampleRequest) \<lparr> URL_RawQuery := ''page=2'' \<rparr> \<rparr>)))
       = ''http://example.com/login''"
  using NewHttp_URL_scheme [of sampleLib querySecretFields_init sampleRequest "''page=2''"]
    NewHttp_URL_scheme [of sampleLib querySecretFields_init
      "sampleRequest \<lparr> Request_TLS := Some ConnectionState \<rparr>" "[]"]
    NewHttp_URL_scheme [of sampleLib querySecretFields_init
      "sampleRequest \<lparr> Request_Header := [''X-Forwarded-Proto'' \<mapsto> [''https'']] \<rparr>" "[]"]
  by (simp add: sampleRequest_def Header_Get_def)

text \<open>
  Claim C6. Registering a fragment \<open>F\<close> only adds redactions: a key that was redacted
  before is redacted afterwards; every key of the map whose lowercased name contains the
  lowercased \<open>F\<close> (which is \<open>F\<close> itself when \<open>F\<close> is already lowercase) is redacted
  afterwards; and the fragments registered before are all still there, in their places,
  with \<open>F\<close> as the only new one.
\<close>

theorem AddSanitizeField_monotonic:
  "(sanitizeValues L secretFields query field = Some [''********'']
      \<longrightarrow> sanitizeValues L (AddSanitizeField F secretFields) query field = Some [''********''])
   \<and> (query field \<noteq> None \<and> Contains (ToLower L field) (ToLower L F)
      \<longrightarrow> sanitizeValues L (AddSanitizeField F secretFields) query field = Some [''********''])
   \<and> (ToLower L F = F \<and> query field \<noteq> None \<and> Contains (ToLower L field) F
      \<longrightarrow> sanitizeValues L (AddSanitizeField F secretFields) query field = Some [''********''])
   \<and> take (length secretFields) (AddSanitizeField F secretFields) = secretFields
   \<and> set (AddSanitizeField F secretFields) = insert F (set secretFields)"
  by (auto simp: sanitizeValues_lookup AddSanitizeField_def split: option.splits if_splits)

text \<open>The same at the sample inputs.\<close>

theorem AddSanitizeField_monotonic_witness:
  "sanitizeValues sampleLib querySecretFields_init
       [''Password'' \<mapsto> [''p''], ''X-Auth-Token'' \<mapsto> [''t'']] ''Password'' = Some [''********'']
   \<and> sanitizeValues sampleLib (AddSanitizeField ''Token'' querySecretFields_init)
       [''Password'' \<mapsto> [''p''], ''X-Auth-Token'' \<mapsto> [''t'']] ''Password'' = Some [''********'']
   \<and> Contains (ToLower sampleLib ''X-Auth-Token'') (ToLower sampleLib ''Token'')
   \<and> sanitizeValues sampleLib querySecretFields_init
       [''Password'' \<mapsto> [''p''], ''X-Auth-Token'' \<mapsto> [''t'']] ''X-Auth-Token'' = Some [''t'']
   \<and> sanitizeValues sampleLib (AddSanitizeField ''Token'' querySecretFields_init)
       [''Password'' \<mapsto> [''p''], ''X-Auth-Token'' \<mapsto> [''t'']] ''X-Auth-Token'' = Some [''********'']
   \<and> ToLower sampleLib ''token'' = ''token''
   \<and> Contains (ToLower sampleLib ''X-Auth-Token'') ''token''
   \<and> sanitizeValues sampleLib (AddSanitizeField ''token'' querySecretFields_init)
       [''Password'' \<mapsto> [''p''], ''X-Auth-Token'' \<mapsto> [''t'']] ''X-Auth-Token'' = Some [''********'']"
proof -
  let ?q = "[''Password'' \<mapsto> [''p''], ''X-Auth-Token'' \<mapsto> [''t'']] :: Values"
  have b1: "sanitizeValues sampleLib querySecretFields_init ?q ''Password'' = Some [''********'']"
    by (simp add: sample_defs sanitizeKeyword_def)
  have b2: "sanitizeValues sampleLib querySecretFields_init ?q ''X-Auth-Token'' = Some [''t'']"
    by (simp add: sample_defs sanitizeKeyword_def)
  have c1: "Contains (ToLower sampleLib ''X-Auth-Token'') (ToLower sampleLib ''Token'')"
    by (simp add: sample_defs)
  have c2: "ToLower sampleLib ''token'' = ''token''"
    by (simp add: sample_defs)
  have c3: "Contains (ToLower sampleLib ''X-Auth-Token'') ''token''"
    by (simp add: sample_defs)
  have d: "?q ''X-Auth-Token'' \<noteq> None" by simp
  show ?thesis
    using AddSanitizeField_monotonic [of sampleLib querySecretFields_init ?q "''Password''" "''Token''"]
      AddSanitizeField_monotonic [of sampleLib querySecretFields_init ?q "''X-Auth-Token''" "''Token''"]
      AddSanitizeField_monotonic [of sampleLib querySecretFields_init ?q "''X-Auth-Token''" "''token''"]
      b1 b2 c1 c2 c3 d
    by presburger
qed

text \<open>
  Claim C7. When \<^verbatim>\<open>net.SplitHostPort\<close> accepts the peer address, \<open>Env\<close> is a map with
  exactly the two keys \<^verbatim>\<open>REMOTE_ADDR\<close> and \<^verbatim>\<open>REMOTE_PORT\<close>, holding the host and the port;
  when it rejects the address, \<open>Env\<close> stays nil. \<^verbatim>\<open>NewHttp\<close> returns a snapshot either
  way, and nothing but \<open>Env\<close> depends on the peer address.
\<close>

theorem NewHttp_Env_populated:
  "(\<forall>addr port. SplitHostPort L (Request_RemoteAddr req) = Some (addr, port) \<longrightarrow>
      (\<exists>env. Env (fst (NewHttp L secretFields req)) = Some env
         \<and> env ''REMOTE_ADDR'' = Some addr \<and> env ''REMOTE_PORT'' = Some port
         \<and> dom env = {''REMOTE_ADDR'', ''REMOTE_PORT''}))
   \<and> (SplitHostPort L (Request_RemoteAddr req) = None \<longrightarrow>
        Env (fst (NewHttp L secretFields req)) = None)
   \<and> (fst (NewHttp L secretFields (req \<lparr> Request_RemoteAddr := remoteAddr \<rparr>))) \<lparr> Env := e \<rparr>
       = (fst (NewHttp L secretFields req)) \<lparr> Env := e \<rparr>"
  by (auto simp: NewHttp_def Let_def split: option.splits prod.splits)

text \<open>The same at the sample inputs.\<close>

theorem NewHttp_Env_populated_witness:
  "SplitHostPort sampleLib (Request_RemoteAddr sampleRequest) = Some (''203.0.113.5'', ''54321'')
   \<and> (\<exists>env. Env (fst (NewHttp sampleLib querySecretFields_init sampleRequest)) = Some env
         \<and> env ''REMOTE_ADDR'' = Some ''203.0.113.5'' \<and> env ''REMOTE_PORT'' = Some ''54321''
         \<and> dom env = {''REMOTE_ADDR'', ''REMOTE_PORT''})
   \<and> SplitHostPort sampleLib
         (Request_RemoteAddr (sampleRequest \<lparr> Request_RemoteAddr := ''not-an-address'' \<rparr>)) = None
   \<and> Env (fst (NewHttp sampleLib querySecretFields_init
         (sampleRequest \<lparr> Request_RemoteAddr := ''not-an-address'' \<rparr>))) = None"
proof -
  have h1: "SplitHostPort sampleLib (Request_RemoteAddr sampleRequest) = Some (''203.0.113.5'', ''54321'')"
    by (simp add: sampleLib_def sampleRequest_def splitLastColon_def)
  have h2: "SplitHostPort sampleLib
         (Request_RemoteAddr (sampleRequest \<lparr> Request_RemoteAddr := ''not-an-address'' \<rparr>)) = None"
    by (simp add: sampleLib_def sampleRequest_def splitLastColon_def)
  note e1 = NewHttp_Env_populated [of sampleLib sampleRequest querySecretFields_init,
      THEN conjunct1, rule_format, OF h1]
  note e2 = NewHttp_Env_populated [of sampleLib
      "sampleRequest \<lparr> Request_RemoteAddr := ''not-an-address'' \<rparr>" querySecretFields_init,
      THEN conjunct2, THEN conjunct1, rule_format, OF h2]
  show ?thesis
    by (rule conjI [OF h1 conjI [OF e1 conjI [OF h2 e2]]])
qed

text \<open>
  Claim C8. Whatever fragments are registered, the snapshot's \<open>Cookies\<close> is the value
  that \<^verbatim>\<open>req.Header.Get("Cookie")\<close> gives on the request as it was passed in.
\<close>

theorem NewHttp_Cookies_verbatim:
  "Cookies (fst (NewHttp L secretFields req)) = Header_Get (Request_Header req) ''Cookie''"
  by (simp add: NewHttp_def Let_def split: option.splits prod.splits)

text \<open>The same at the sample inputs.\<close>

theorem NewHttp_Cookies_verbatim_witness:
  "Cookies (fst (NewHttp sampleLib (AddSanitizeField ''cookie'' querySecretFields_init) sampleRequest))
     = ''password=abc''"
  using NewHttp_Cookies_verbatim [of sampleLib "AddSanitizeField ''cookie'' querySecretFields_init" sampleRequest]
  by (simp add: sampleRequest_def Header_Get_def)

text \<open>
  Claim C9 as stated fails for a request whose method is the empty string, which
  \<^verbatim>\<open>net/http\<close> reads as GET on a client request: the snapshot's \<open>Method\<close> is empty too.
\<close>

theorem NewHttp_empty_Method:
  "Method (fst (NewHttp sampleLib querySecretFields_init (sampleRequest \<lparr> Request_Method := [] \<rparr>))) = []"
  by (simp add: NewHttp_def Let_def split: option.splits prod.splits)

text \<open>
  Claim C9, as amended. The snapshot's \<open>URL\<close> is never empty, and its \<open>Method\<close> is the
  request's method, copied as it is: it is non-empty exactly when the request's method
  is.
\<close>

theorem NewHttp_URL_nonempty_Method_copied:
  "URL (fst (NewHttp L secretFields req)) \<noteq> []
   \<and> Method (fst (NewHttp L secretFields req)) = Request_Method req"
  by (simp add: NewHttp_def Let_def split: option.splits prod.splits)

text \<open>The same at the sample inputs.\<close>

theorem NewHttp_URL_nonempty_Method_copied_witness:
  "URL (fst (NewHttp sampleLib querySecretFields_init sampleRequest)) \<noteq> []
   \<and> Method (fst (NewHttp sampleLib querySecretFields_init sampleRequest)) = ''GET''"
  using NewHttp_URL_nonempty_Method_copied [of sampleLib querySecretFields_init sampleRequest]
  by (simp add: sampleRequest_def)

text \<open>
  Claim C10. For a fixed list of fragments, sanitizing a sanitized map changes nothing,
  and the sanitized map has exactly the keys of the map it was made from.
\<close>

theorem sanitizeValues_idempotent:
  "sanitizeValues L secretFields (sanitizeValues L secretFields query)
     = sanitizeValues L secretFields query
   \<and> dom (sanitizeValues L secretFields query) = dom query"
proof
  show "sanitizeValues L secretFields (sanitizeValues L secretFields query)
     = sanitizeValues L secretFields query"
  proof
    fix field
    show "sanitizeValues L secretFields (sanitizeValues L secretFields query) field
       = sanitizeValues L secretFields query field"
      by (cases "query field") (simp_all add: sanitizeValues_lookup)
  qed
  show "dom (sanitizeValues L secretFields query) = dom query"
    by (auto simp: dom_def sanitizeValues_lookup split: option.splits if_splits)
qed

text \<open>The same at the sample inputs.\<close>

theorem sanitizeValues_idempotent_witness:
  "sanitizeValues sampleLib querySecretFields_init
     (sanitizeValues sampleLib querySecretFields_init (Request_Header sampleRequest)) ''X-Api-Secret''
     = Some [''********'']
   \<and> dom (sanitizeValues sampleLib querySecretFields_init (Request_Header sampleRequest))
     = {''X-Api-Secret'', ''Accept'', ''Cookie''}"
proof -
  have "sanitizeValues sampleLib querySecretFields_init (Request_Header sampleRequest) ''X-Api-Secret''
     = Some [''********'']"
    by (simp add: sample_defs sanitizeKeyword_def)
  moreover have "dom (Request_Header sampleRequest) = {''X-Api-Secret'', ''Accept'', ''Cookie''}"
    by (auto simp: sample_defs)
  ultimately show ?thesis
    using sanitizeValues_idempotent [of sampleLib querySecretFields_init "Request_Header sampleRequest"]
    by simp
qed

end
